theory Spec2Isabelle
  imports Main
begin

section \<open>The \<open>clip\<close> command of the command-line client (src/cli/Clip.cpp)\<close>

text \<open>
  \<open>Clip::executeWithDatabase\<close> copies one attribute of an entry, or its current TOTP, to
  the clipboard and optionally clears the clipboard after a countdown. The command talks
  to the outside through the two text streams, the clipboard program, the database and a
  blocking sleep. The model makes each of these an event of a trace, in program order, and
  threads the clipboard through as a state of its own.
\<close>

subsection \<open>Strings and numbers of the Qt library\<close>

text \<open>
  A \<open>QString\<close> is modelled as a \<open>string\<close>; every character of the messages of this
  command is ASCII. The definitions from \<open>isSpace\<close> to \<open>parseInteger\<close> are the parts of the
  conversion \<open>toInt\<close> below.
\<close>

definition isSpace :: "char \<Rightarrow> bool" where
  \<comment> \<open>\<open>QChar::isSpace\<close> on the code points below 256.\<close>
  "isSpace c =
     (let n = (of_char c :: nat)
      in n = 0x20 \<or> (0x09 \<le> n \<and> n \<le> 0x0D) \<or> n = 0x85 \<or> n = 0xA0)"

definition isDigit :: "char \<Rightarrow> bool" where
  "isDigit c = (let n = (of_char c :: nat) in 0x30 \<le> n \<and> n \<le> 0x39)"

definition digitValue :: "char \<Rightarrow> int" where
  "digitValue c = int (of_char c) - 0x30"

definition INT_MIN :: int where
  "INT_MIN = - 2147483648"

definition INT_MAX :: int where
  "INT_MAX = 2147483647"

fun parseDigits :: "int \<Rightarrow> string \<Rightarrow> int option" where
  "parseDigits acc [] = Some acc"
| "parseDigits acc (c # cs) =
     (if isDigit c then parseDigits (acc * 10 + digitValue c) cs else None)"

definition trimmed :: "string \<Rightarrow> string" where
  "trimmed s = rev (dropWhile isSpace (rev (dropWhile isSpace s)))"

definition parseInteger :: "string \<Rightarrow> int option" where
  "parseInteger s =
     (case trimmed s of
        [] \<Rightarrow> None
      | c # cs \<Rightarrow>
          if c = CHR ''-'' then
            (if cs = [] then None else map_option uminus (parseDigits 0 cs))
          else if c = CHR ''+'' then
            (if cs = [] then None else parseDigits 0 cs)
          else parseDigits 0 (c # cs))"

text \<open>
  Modelled from the spec: \<open>QString::toInt\<close>, which belongs to the Qt library and is not
  under src/. The spec (4.2) asks only that the timeout "parse as an integer"; the model
  is the library's base-10 conversion: white space around the number is skipped, one
  sign may precede the digits, and the result is 0 when the conversion fails or the
  number does not fit an \<open>int\<close> of 32 bits.
\<close>

definition toInt :: "string \<Rightarrow> int" where
  "toInt s =
     (case parseInteger s of
        None \<Rightarrow> 0
      | Some v \<Rightarrow> if INT_MIN \<le> v \<and> v \<le> INT_MAX then v else 0)"

fun showNat :: "nat \<Rightarrow> string" where
  "showNat n =
     (if n < 10 then [char_of (0x30 + n)]
      else showNat (n div 10) @ [char_of (0x30 + n mod 10)])"

definition showInt :: "int \<Rightarrow> string" where
  \<comment> \<open>what \<open>QString::arg(int)\<close> substitutes\<close>
  "showInt i = (if i < 0 then CHR ''-'' # showNat (nat (- i)) else showNat (nat i))"

subsection \<open>Messages\<close>

text \<open>
  \<open>QObject::tr\<close> without a loaded translation returns its source text, and \<open>arg\<close> puts
  its arguments in the places of \<open>%1\<close> and \<open>%2\<close>.
\<close>

definition endl :: string where
  "endl = [CHR 0x0A]"

definition CR :: string where
  "CR = [CHR 0x0D]"

definition msgInvalidTimeout :: "string \<Rightarrow> string" where
  "msgInvalidTimeout timeout = ''Invalid timeout value '' @ timeout @ ''.''"

definition msgEntryNotFound :: "string \<Rightarrow> string" where
  "msgEntryNotFound entryPath = ''Entry '' @ entryPath @ '' not found.''"

definition msgConflict :: string where
  "msgConflict = ''ERROR: Please specify one of --attribute or --totp, not both.''"

definition msgNoTotp :: "string \<Rightarrow> string" where
  "msgNoTotp entryPath = ''Entry with path '' @ entryPath @ '' has no TOTP set up.''"

definition msgAmbiguous :: "string \<Rightarrow> string \<Rightarrow> string" where
  "msgAmbiguous selectedAttribute separated =
     ''ERROR: attribute '' @ selectedAttribute @ '' is ambiguous, it matches '' @ separated @ ''.''"

definition msgAttributeNotFound :: "string \<Rightarrow> string" where
  "msgAttributeNotFound selectedAttribute =
     ''Attribute '' @ [CHR 0x22] @ selectedAttribute @ [CHR 0x22] @ '' not found.''"

definition msgCopied :: "string \<Rightarrow> string" where
  "msgCopied selectedAttribute =
     ''Entry'' @ [CHR 0x27] @ ''s '' @ [CHR 0x22] @ selectedAttribute @ [CHR 0x22]
       @ '' attribute copied to the clipboard!''"

definition msgClearing :: "int \<Rightarrow> string" where
  "msgClearing timeoutSeconds =
     ''Clearing the clipboard in '' @ showInt timeoutSeconds @ '' second(s)...''"

definition msgCleared :: string where
  "msgCleared = ''Clipboard cleared!''"

subsection \<open>Data\<close>

text \<open>
  An entry as the command sees it: \<open>attributes()\<close> (keys are unique), \<open>hasTotp()\<close> and
  \<open>totp()\<close>. \<open>EntryAttributes::value\<close> of a key that is absent is the empty string.
\<close>

record entry =
  attributes :: "string \<rightharpoonup> string"
  hasTotp :: bool
  totp :: string

definition attributeValue :: "(string \<rightharpoonup> string) \<Rightarrow> string \<Rightarrow> string" where
  "attributeValue attrs key = (case attrs key of None \<Rightarrow> [] | Some v \<Rightarrow> v)"

text \<open>
  The parsed command line: the positional arguments (database, entry, and the timeout
  when given), whether \<open>Command::QuietOption\<close> and \<open>TotpOption\<close> are set, and the value of
  \<open>AttributeOption\<close> when it is set.
\<close>

record parser =
  positionalArguments :: "string list"
  quietOption :: bool
  attributeOption :: "string option"
  totpOption :: bool

definition attributeValueOf :: "parser \<Rightarrow> string" where
  \<comment> \<open>\<open>parser->value(AttributeOption)\<close>: the option's default is "password"\<close>
  "attributeValueOf p = (case attributeOption p of None \<Rightarrow> ''password'' | Some a \<Rightarrow> a)"

definition attributeIsSet :: "parser \<Rightarrow> bool" where
  "attributeIsSet p = (attributeOption p \<noteq> None)"

text \<open>
  The collaborators, none of which is under src/: the lookup of an entry by its path from
  the root group of the database, \<open>Utils::findAttributes\<close>, \<open>Utils::clipText\<close> (which
  returns an exit code and acts on the clipboard, of any type \<open>'c\<close>), and
  \<open>QLocale().createSeparatedList\<close>.
\<close>

record 'c env =
  findEntryByPath :: "string \<Rightarrow> entry option"
  findAttributes :: "(string \<rightharpoonup> string) \<Rightarrow> string \<Rightarrow> string list"
  clipText :: "string \<Rightarrow> 'c \<Rightarrow> int \<times> 'c"
  createSeparatedList :: "string list \<Rightarrow> string"

datatype device = STDOUT | STDERR | DEVNULL

datatype event =
    Write device string
  | FindEntry string
  | FindAttrs string
  | ClipText string
  | Sleep nat

record 'c state =
  trace :: "event list"
  clipboard :: 'c

definition EXIT_SUCCESS :: int where
  "EXIT_SUCCESS = 0"

definition EXIT_FAILURE :: int where
  "EXIT_FAILURE = 1"

subsection \<open>The command\<close>

definition emit :: "event list \<Rightarrow> 'c state \<Rightarrow> 'c state" where
  "emit evs s = s\<lparr>trace := trace s @ evs\<rparr>"

definition callClipText :: "'c env \<Rightarrow> string \<Rightarrow> 'c state \<Rightarrow> int \<times> 'c state" where
  "callClipText env text s =
     (let r = clipText env text (clipboard s)
      in (fst r, \<lparr>trace = trace s @ [ClipText text], clipboard = snd r\<rparr>))"

definition eraseLine :: "device \<Rightarrow> string \<Rightarrow> event list" where
  \<comment> \<open>\<open>out << '\r' << QString(lastLine.size(), ' ') << '\r'\<close>\<close>
  "eraseLine out lastLine =
     [Write out CR, Write out (replicate (length lastLine) CHR '' ''), Write out CR]"

text \<open>
  The loop of lines 127 to 133; it returns the last line printed. A write is an event when
  it is made: the buffering of the streams, and so \<open>flush\<close>, is not modelled.
\<close>

function countdown :: "device \<Rightarrow> int \<Rightarrow> string \<Rightarrow> 'c state \<Rightarrow> string \<times> 'c state" where
  "countdown out timeoutSeconds lastLine s =
     (if timeoutSeconds > 0 then
        let s1 = emit (eraseLine out lastLine) s;
            lastLine' = msgClearing timeoutSeconds;
            s2 = emit [Write out lastLine', Sleep 1000] s1
        in countdown out (timeoutSeconds - 1) lastLine' s2
      else (lastLine, s))"
  by pat_completeness auto
termination
  by (relation "measure (\<lambda>(out, timeoutSeconds, lastLine, s). nat timeoutSeconds)") auto

declare countdown.simps [simp del]

text \<open>
  Lines 115 to 138: write the value, confirm, and when a timeout was given count down and
  clear. The exit code of the second \<open>clipText\<close> is not looked at.
\<close>

definition copyAndClear ::
  "'c env \<Rightarrow> device \<Rightarrow> int \<Rightarrow> string \<Rightarrow> string \<Rightarrow> 'c state \<Rightarrow> int \<times> 'c state" where
  "copyAndClear env out timeoutSeconds val selectedAttribute s =
     (let (exitCode, s1) = callClipText env val s
      in if exitCode \<noteq> EXIT_SUCCESS then (exitCode, s1)
         else
           let s2 = emit [Write out (msgCopied selectedAttribute), Write out endl] s1
           in if timeoutSeconds = 0 then (exitCode, s2)
              else
                let (lastLine, s3) = countdown out timeoutSeconds [] s2;
                    (ignored, s4) = callClipText env [] s3;
                    s5 = emit (eraseLine out lastLine) s4;
                    s6 = emit [Write out msgCleared, Write out endl] s5
                in (EXIT_SUCCESS, s6))"

text \<open>
  Lines 85 to 113: the value to copy and the name to report, or the exit code of a
  failure.
\<close>

definition resolveValue ::
  "'c env \<Rightarrow> parser \<Rightarrow> device \<Rightarrow> string \<Rightarrow> entry \<Rightarrow> 'c state
     \<Rightarrow> (int \<times> 'c state) + (string \<times> string \<times> 'c state)" where
  "resolveValue env p out entryPath e s =
     (let selectedAttribute = attributeValueOf p
      in if totpOption p \<or> selectedAttribute = ''totp'' then
           (if \<not> hasTotp e then
              Inl (EXIT_FAILURE, emit [Write STDERR (msgNoTotp entryPath), Write STDERR endl] s)
            else Inr (totp e, selectedAttribute, s))
         else
           let attrs = findAttributes env (attributes e) selectedAttribute;
               s1 = emit [FindAttrs selectedAttribute] s
           in if length attrs > 1 then
                Inl (EXIT_FAILURE,
                     emit [Write STDERR (msgAmbiguous selectedAttribute (createSeparatedList env attrs)),
                           Write STDERR endl] s1)
              else if length attrs = 1 then
                Inr (attributeValue (attributes e) (attrs ! 0), attrs ! 0, s1)
              else
                Inl (EXIT_FAILURE,
                     emit [Write out (msgAttributeNotFound selectedAttribute), Write out endl] s1))"

text \<open>
  The local variables of lines 56 to 72: \<open>entryPath\<close> is \<open>args.at(1)\<close>, \<open>timeout\<close> is
  \<open>args.at(2)\<close> when there are exactly three positional arguments and empty otherwise,
  \<open>timeoutSeconds\<close> is 0 unless a timeout was given, and the output stream is the null
  device under \<open>--quiet\<close>.
\<close>

definition entryPathOf :: "parser \<Rightarrow> string" where
  "entryPathOf p = positionalArguments p ! 1"

definition timeoutOf :: "parser \<Rightarrow> string" where
  "timeoutOf p =
     (if length (positionalArguments p) = 3 then positionalArguments p ! 2 else [])"

definition timeoutSecondsOf :: "parser \<Rightarrow> int" where
  "timeoutSecondsOf p = (if timeoutOf p \<noteq> [] then toInt (timeoutOf p) else 0)"

definition outputDevice :: "parser \<Rightarrow> device" where
  "outputDevice p = (if quietOption p then DEVNULL else STDOUT)"

text \<open>
  \<open>Clip::executeWithDatabase\<close>. \<open>args.at(1)\<close> needs two positional arguments; with fewer
  the program aborts, which is the result \<open>None\<close>.
\<close>

definition executeWithDatabase ::
  "'c env \<Rightarrow> parser \<Rightarrow> 'c state \<Rightarrow> (int \<times> 'c state) option" where
  "executeWithDatabase env p s =
     (if length (positionalArguments p) < 2 then None
      else if timeoutOf p \<noteq> [] \<and> toInt (timeoutOf p) \<le> 0 then
        Some (EXIT_FAILURE,
              emit [Write STDERR (msgInvalidTimeout (timeoutOf p)), Write STDERR endl] s)
      else
        let s1 = emit [FindEntry (entryPathOf p)] s
        in case findEntryByPath env (entryPathOf p) of
             None \<Rightarrow>
               Some (EXIT_FAILURE,
                     emit [Write STDERR (msgEntryNotFound (entryPathOf p)), Write STDERR endl] s1)
           | Some e \<Rightarrow>
               if attributeIsSet p \<and> totpOption p then
                 Some (EXIT_FAILURE, emit [Write STDERR msgConflict, Write STDERR endl] s1)
               else
                 (case resolveValue env p (outputDevice p) (entryPathOf p) e s1 of
                    Inl failure \<Rightarrow> Some failure
                  | Inr (val, selectedAttribute, s2) \<Rightarrow>
                      Some (copyAndClear env (outputDevice p) (timeoutSecondsOf p)
                              val selectedAttribute s2)))"

subsection \<open>Reading a trace\<close>

fun sleeps :: "event list \<Rightarrow> nat" where
  "sleeps [] = 0"
| "sleeps (Sleep ms # evs) = Suc (sleeps evs)"
| "sleeps (e # evs) = sleeps evs"

fun clipped :: "event list \<Rightarrow> string list" where
  "clipped [] = []"
| "clipped (ClipText t # evs) = t # clipped evs"
| "clipped (e # evs) = clipped evs"

fun writes :: "device \<Rightarrow> event list \<Rightarrow> string list" where
  "writes d [] = []"
| "writes d (Write d' t # evs) = (if d' = d then t # writes d evs else writes d evs)"
| "writes d (e # evs) = writes d evs"

text \<open>
  What \<open>k\<close> rounds of the loop leave in the trace, the first of them erasing \<open>lastLine\<close>:
  each round erases the line before it, prints its own and sleeps one second.
\<close>

fun ticks :: "device \<Rightarrow> nat \<Rightarrow> string \<Rightarrow> event list" where
  "ticks out 0 lastLine = []"
| "ticks out (Suc k) lastLine =
     eraseLine out lastLine @ [Write out (msgClearing (int (Suc k))), Sleep 1000]
       @ ticks out k (msgClearing (int (Suc k)))"

definition lastLineAfter :: "int \<Rightarrow> string \<Rightarrow> string" where
  "lastLineAfter n lastLine = (if n > 0 then msgClearing 1 else lastLine)"

definition clearing :: "device \<Rightarrow> int \<Rightarrow> event list" where
  "clearing out n =
     ticks out (nat n) [] @ [ClipText []] @ eraseLine out (lastLineAfter n [])
       @ [Write out msgCleared, Write out endl]"

fun statusLines :: "nat \<Rightarrow> string list" where
  "statusLines 0 = []"
| "statusLines (Suc k) = msgClearing (int (Suc k)) # statusLines k"

text \<open>The lines of a trace that are neither a carriage return nor blank padding.\<close>

definition isPadding :: "string \<Rightarrow> bool" where
  "isPadding t = (t = CR \<or> list_all (\<lambda>c. c = CHR '' '') t)"

definition printed :: "device \<Rightarrow> event list \<Rightarrow> string list" where
  "printed d evs = filter (\<lambda>t. \<not> isPadding t) (writes d evs)"

subsection \<open>Strings that are decimal integers\<close>




subsection \<open>A small database for the examples\<close>

definition demoEntry :: entry where
  "demoEntry =
     \<lparr>attributes = [''password'' \<mapsto> ''secret123'', ''UserName'' \<mapsto> ''bob'', ''User-Id'' \<mapsto> ''42''],
      hasTotp = True, totp = ''123456''\<rparr>"

definition plainEntry :: entry where
  "plainEntry = \<lparr>attributes = [''password'' \<mapsto> ''hunter2''], hasTotp = False, totp = []\<rparr>"

definition demoKeys :: "string list" where
  "demoKeys = [''UserName'', ''User-Id'', ''password'']"

definition demoFindAttributes :: "(string \<rightharpoonup> string) \<Rightarrow> string \<Rightarrow> string list" where
  \<comment> \<open>the key itself when it is there, else the keys that begin with the query\<close>
  "demoFindAttributes attrs query =
     (if attrs query \<noteq> None then [query]
      else filter (\<lambda>k. attrs k \<noteq> None \<and> take (length query) k = query) demoKeys)"

definition demoSeparated :: "string list \<Rightarrow> string" where
  "demoSeparated keys = concat (map (\<lambda>k. k @ '';'') keys)"

definition demoEnv :: "string env" where
  "demoEnv =
     \<lparr>findEntryByPath =
        (\<lambda>path. if path = ''Root/Email'' then Some demoEntry
                 else if path = ''Root/Plain'' then Some plainEntry else None),
      findAttributes = demoFindAttributes,
      clipText = (\<lambda>text c. (EXIT_SUCCESS, text)),
      createSeparatedList = demoSeparated\<rparr>"

definition brokenEnv :: "string env" where
  \<comment> \<open>no clipboard program works: every write leaves the clipboard as it was, exit code 2\<close>
  "brokenEnv = demoEnv\<lparr>clipText := (\<lambda>text c. (2, c))\<rparr>"

definition demoState :: "string state" where
  "demoState = \<lparr>trace = [], clipboard = ''old''\<rparr>"

definition invocation :: "string list \<Rightarrow> bool \<Rightarrow> string option \<Rightarrow> bool \<Rightarrow> parser" where
  "invocation args q a t =
     \<lparr>positionalArguments = args, quietOption = q, attributeOption = a, totpOption = t\<rparr>"

text \<open>A quiet run with a timeout of two seconds, and the trace it leaves.\<close>

definition quietRun :: parser where
  "quietRun = invocation [''db'', ''Root/Email'', ''2''] True (Some ''pass'') False"

definition quietRunTrace :: "event list" where
  "quietRunTrace =
     [FindEntry ''Root/Email'', FindAttrs ''pass'', ClipText ''secret123'',
      Write DEVNULL (msgCopied ''password''), Write DEVNULL endl]
     @ ticks DEVNULL 2 [] @ [ClipText []] @ eraseLine DEVNULL (msgClearing 1)
     @ [Write DEVNULL msgCleared, Write DEVNULL endl]"

text \<open>
  An environment whose clipboard program takes a value but fails when it is asked to clear,
  a run with a timeout of two seconds and the trace of such a run, and a run against the
  environment whose clipboard writes all fail.
\<close>

definition staleEnv :: "string env" where
  "staleEnv =
     demoEnv\<lparr>clipText :=
       (\<lambda>text c. if text = [] then (EXIT_FAILURE, c) else (EXIT_SUCCESS, text))\<rparr>"

definition clearRun :: parser where
  "clearRun = invocation [''db'', ''Root/Email'', ''2''] False (Some ''pass'') False"

definition countdownRunTrace :: "event list" where
  "countdownRunTrace =
     [FindEntry ''Root/Email'', FindAttrs ''pass'', ClipText ''secret123'',
      Write STDOUT (msgCopied ''password''), Write STDOUT endl]
     @ ticks STDOUT 2 [] @ [ClipText []] @ eraseLine STDOUT (msgClearing 1)
     @ [Write STDOUT msgCleared, Write STDOUT endl]"

definition failingRun :: parser where
  "failingRun = invocation [''db'', ''Root/Email'', ''5''] False None False"

text \<open>
  The plain run of the specification's first scenario, and a run with the timeout "-5".
\<close>

definition plainRun :: parser where
  "plainRun = invocation [''db'', ''Root/Email''] False None False"

definition plainRunTrace :: "event list" where
  "plainRunTrace =
     [FindEntry ''Root/Email'', FindAttrs ''password'', ClipText ''secret123'',
      Write STDOUT (msgCopied ''password''), Write STDOUT endl]"

definition badTimeoutRun :: parser where
  "badTimeoutRun = invocation [''db'', ''Root/Email'', ''-5''] False None False"

text \<open>
  The two ways of asking for the TOTP, a quiet request for the TOTP of an entry that has
  none, and a timeout one past the largest \<open>int\<close>.
\<close>

definition totpFlagRun :: parser where
  "totpFlagRun = invocation [''db'', ''Root/Email''] False None True"

definition totpAttributeRun :: parser where
  "totpAttributeRun = invocation [''db'', ''Root/Email''] False (Some ''totp'') False"

text \<open>What a run shows apart from its output stream: exit code, error stream, clipboard.\<close>

definition errorView :: "(int \<times> 'c state) option \<Rightarrow> (int \<times> string list \<times> 'c) option" where
  "errorView r = map_option (\<lambda>(rc, s'). (rc, writes STDERR (trace s'), clipboard s')) r"

definition missingTotpRun :: parser where
  "missingTotpRun = invocation [''db'', ''Root/Plain''] True None True"




section \<open>Properties\<close>

subsection \<open>The loop and the clipboard phase in closed form\<close>

lemma countdown_eq:
  "countdown out n lastLine s = (lastLineAfter n lastLine, emit (ticks out (nat n) lastLine) s)"
proof (induction out n lastLine s rule: countdown.induct)
  case (1 out n lastLine s)
  show ?case
  proof (cases "n > 0")
    case False
    then show ?thesis
      by (subst countdown.simps) (simp add: lastLineAfter_def emit_def)
  next
    case True
    then obtain k where k: "nat n = Suc k"
      by (cases "nat n") auto
    then have kn: "int (Suc k) = n" "nat (n - 1) = k"
      using True by linarith+
    have "countdown out n lastLine s =
            countdown out (n - 1) (msgClearing n)
              (emit [Write out (msgClearing n), Sleep 1000] (emit (eraseLine out lastLine) s))"
      using True by (subst countdown.simps) (simp add: Let_def)
    also have "\<dots> = (lastLineAfter (n - 1) (msgClearing n),
         emit (ticks out k (msgClearing n))
           (emit [Write out (msgClearing n), Sleep 1000] (emit (eraseLine out lastLine) s)))"
      using "1.IH"[OF True refl refl refl] kn by simp
    also have "\<dots> = (lastLineAfter n lastLine, emit (ticks out (nat n) lastLine) s)"
      using True k kn by (auto simp: lastLineAfter_def emit_def)
    finally show ?thesis .
  qed
qed

lemma copyAndClear_eq:
  "copyAndClear env out n v k s =
     (if fst (clipText env v (clipboard s)) \<noteq> EXIT_SUCCESS then
        (fst (clipText env v (clipboard s)),
         \<lparr>trace = trace s @ [ClipText v], clipboard = snd (clipText env v (clipboard s))\<rparr>)
      else if n = 0 then
        (EXIT_SUCCESS,
         \<lparr>trace = trace s @ [ClipText v, Write out (msgCopied k), Write out endl],
            clipboard = snd (clipText env v (clipboard s))\<rparr>)
      else
        (EXIT_SUCCESS,
         \<lparr>trace = trace s @ [ClipText v, Write out (msgCopied k), Write out endl] @ clearing out n,
            clipboard = snd (clipText env [] (snd (clipText env v (clipboard s))))\<rparr>))"
  by (simp add: copyAndClear_def callClipText_def countdown_eq emit_def clearing_def Let_def
        split: prod.splits)

lemma resolveValue_totp:
  assumes "totpOption p \<or> attributeValueOf p = ''totp''"
  shows "resolveValue env p out path e s =
     (if hasTotp e then Inr (totp e, attributeValueOf p, s)
      else Inl (EXIT_FAILURE, emit [Write STDERR (msgNoTotp path), Write STDERR endl] s))"
  using assms by (auto simp add: resolveValue_def Let_def)

lemma resolveValue_attribute:
  assumes "\<not> totpOption p" and "attributeValueOf p \<noteq> ''totp''"
  shows "resolveValue env p out path e s =
     (case findAttributes env (attributes e) (attributeValueOf p) of
        [] \<Rightarrow>
          Inl (EXIT_FAILURE,
               emit [FindAttrs (attributeValueOf p),
                     Write out (msgAttributeNotFound (attributeValueOf p)), Write out endl] s)
      | [k] \<Rightarrow>
          Inr (attributeValue (attributes e) k, k, emit [FindAttrs (attributeValueOf p)] s)
      | k # k' # ks \<Rightarrow>
          Inl (EXIT_FAILURE,
               emit [FindAttrs (attributeValueOf p),
                     Write STDERR
                       (msgAmbiguous (attributeValueOf p) (createSeparatedList env (k # k' # ks))),
                     Write STDERR endl] s))"
  using assms by (simp add: resolveValue_def Let_def emit_def split: list.splits)

subsection \<open>Facts about traces\<close>

lemma sleeps_append [simp]: "sleeps (xs @ ys) = sleeps xs + sleeps ys"
  by (induction xs rule: sleeps.induct) simp_all

lemma clipped_append [simp]: "clipped (xs @ ys) = clipped xs @ clipped ys"
  by (induction xs rule: clipped.induct) simp_all

lemma writes_append [simp]: "writes d (xs @ ys) = writes d xs @ writes d ys"
  by (induction d xs rule: writes.induct) simp_all

lemma eraseLine_observed [simp]:
  "sleeps (eraseLine out l) = 0" "clipped (eraseLine out l) = []"
  "writes d (eraseLine out l) = (if d = out then [CR, replicate (length l) CHR '' '', CR] else [])"
  by (simp_all add: eraseLine_def)

lemma sleeps_ticks [simp]: "sleeps (ticks out k l) = k"
  by (induction k arbitrary: l) simp_all

lemma clipped_ticks [simp]: "clipped (ticks out k l) = []"
  by (induction k arbitrary: l) simp_all

lemma writes_ticks_other [simp]: "d \<noteq> out \<Longrightarrow> writes d (ticks out k l) = []"
  by (induction k arbitrary: l) simp_all

lemma isPadding_erasure [simp]: "isPadding CR" "isPadding (replicate n CHR '' '')"
  by (simp_all add: isPadding_def list_all_iff)

lemma msgClearing_visible [simp]: "\<not> isPadding (msgClearing n)"
  by (simp add: isPadding_def msgClearing_def CR_def)

lemma msgCleared_visible [simp]: "\<not> isPadding msgCleared"
  by (simp add: isPadding_def msgCleared_def CR_def)

lemma printed_ticks [simp]: "printed out (ticks out k l) = statusLines k"
  by (induction k arbitrary: l) (simp_all add: printed_def)

lemma length_statusLines [simp]: "length (statusLines k) = k"
  by (induction k) simp_all

lemma clipped_clearing [simp]: "clipped (clearing out n) = [[]]"
  by (simp add: clearing_def)

lemma sleeps_clearing [simp]: "sleeps (clearing out n) = nat n"
  by (simp add: clearing_def)

lemma writes_clearing_other [simp]: "d \<noteq> out \<Longrightarrow> writes d (clearing out n) = []"
  by (simp add: clearing_def)

subsection \<open>Validation of the options\<close>

text \<open>
  C1 (as amended). When both \<open>--attribute\<close> and \<open>--totp\<close> are set, the command always fails,
  but the conflict is the third check, not the first: an invalid timeout is reported
  before anything else, then the entry is looked up and a missing entry is reported, and
  only for an entry that exists is the conflict reported, after the lookup and before any
  attribute is resolved or the clipboard is touched.
\<close>

theorem conflict_reported_after_lookup:
  assumes "2 \<le> length (positionalArguments p)"
    and "attributeIsSet p" and "totpOption p"
  shows "executeWithDatabase env p s =
     Some (EXIT_FAILURE,
       if timeoutOf p \<noteq> [] \<and> toInt (timeoutOf p) \<le> 0 then
         emit [Write STDERR (msgInvalidTimeout (timeoutOf p)), Write STDERR endl] s
       else if findEntryByPath env (entryPathOf p) = None then
         emit [FindEntry (entryPathOf p),
               Write STDERR (msgEntryNotFound (entryPathOf p)), Write STDERR endl] s
       else
         emit [FindEntry (entryPathOf p), Write STDERR msgConflict, Write STDERR endl] s)"
  using assms by (auto simp add: executeWithDatabase_def Let_def emit_def split: option.splits)

theorem conflict_reported_after_lookup_witness:
  "executeWithDatabase demoEnv (invocation [''db'', ''Root/Email'', ''10''] False (Some ''UserName'') True) demoState =
     Some (EXIT_FAILURE,
       \<lparr>trace = [FindEntry ''Root/Email'', Write STDERR msgConflict, Write STDERR endl],
          clipboard = ''old''\<rparr>)"
proof -
  let ?p = "invocation [''db'', ''Root/Email'', ''10''] False (Some ''UserName'') True"
  have args: "2 \<le> length (positionalArguments ?p)" by (simp add: invocation_def)
  have a: "attributeIsSet ?p" by (simp add: invocation_def attributeIsSet_def)
  have t: "totpOption ?p" by (simp add: invocation_def)
  have "toInt ''10'' = 10" by code_simp
  then have valid: "\<not> (timeoutOf ?p \<noteq> [] \<and> toInt (timeoutOf ?p) \<le> 0)"
    by (simp add: timeoutOf_def invocation_def)
  have found: "findEntryByPath demoEnv (entryPathOf ?p) \<noteq> None"
    by (simp add: demoEnv_def entryPathOf_def invocation_def)
  have "executeWithDatabase demoEnv ?p demoState =
          Some (EXIT_FAILURE,
                emit [FindEntry (entryPathOf ?p), Write STDERR msgConflict, Write STDERR endl] demoState)"
    using conflict_reported_after_lookup [OF args a t, of demoEnv demoState]
    by (simp only: valid found if_False)
  then show ?thesis
    by (simp add: emit_def demoState_def entryPathOf_def invocation_def)
qed

text \<open>
  C1 as the specification states it fails: with both options set and a path that is not in
  the database, the entry is looked up and the failure is "entry not found"; the result is
  not the conflict message alone.
\<close>

theorem conflict_before_lookup_counterexample:
  "executeWithDatabase demoEnv (invocation [''db'', ''Root/Nowhere''] False (Some ''password'') True) demoState =
     Some (EXIT_FAILURE,
       \<lparr>trace = [FindEntry ''Root/Nowhere'', Write STDERR (msgEntryNotFound ''Root/Nowhere''),
                 Write STDERR endl],
          clipboard = ''old''\<rparr>)
   \<and> executeWithDatabase demoEnv (invocation [''db'', ''Root/Nowhere''] False (Some ''password'') True) demoState \<noteq>
     Some (EXIT_FAILURE,
       \<lparr>trace = [Write STDERR msgConflict, Write STDERR endl], clipboard = ''old''\<rparr>)"
  by (simp add: executeWithDatabase_def invocation_def timeoutOf_def entryPathOf_def demoEnv_def
        demoState_def emit_def Let_def)


subsection \<open>Resolution of the attribute\<close>

lemma exec_resolved:
  assumes "2 \<le> length (positionalArguments p)"
    and "\<not> (timeoutOf p \<noteq> [] \<and> toInt (timeoutOf p) \<le> 0)"
    and "findEntryByPath env (entryPathOf p) = Some e"
    and "\<not> (attributeIsSet p \<and> totpOption p)"
  shows "executeWithDatabase env p s =
     (case resolveValue env p (outputDevice p) (entryPathOf p) e (emit [FindEntry (entryPathOf p)] s) of
        Inl failure \<Rightarrow> Some failure
      | Inr (v, k, s2) \<Rightarrow>
          Some (copyAndClear env (outputDevice p) (timeoutSecondsOf p) v k s2))"
  using assms by (auto simp add: executeWithDatabase_def Let_def)

text \<open>
  C5. When the timeout is acceptable, the entry exists, TOTP is not requested and the query
  matches exactly one key \<open>k\<close> of the entry, whose stored value is \<open>v\<close>, then \<open>v\<close> is what is
  written to the clipboard, and once that write has succeeded the command succeeds and its
  confirmation names the matched key \<open>k\<close>, not the query. Without a timeout nothing
  follows; with one, the only further clipboard write is the clearing one.
\<close>

theorem unique_match_copied:
  assumes args: "2 \<le> length (positionalArguments p)"
    and timeout: "\<not> (timeoutOf p \<noteq> [] \<and> toInt (timeoutOf p) \<le> 0)"
    and entry: "findEntryByPath env (entryPathOf p) = Some e"
    and no_totp: "\<not> totpOption p" "attributeValueOf p \<noteq> ''totp''"
    and match: "findAttributes env (attributes e) (attributeValueOf p) = [k]"
    and stored: "attributes e k = Some v"
    and written: "fst (clipText env v (clipboard s)) = EXIT_SUCCESS"
  shows "\<exists>s' rest.
      executeWithDatabase env p s = Some (EXIT_SUCCESS, s')
    \<and> trace s' =
        trace s @ [FindEntry (entryPathOf p), FindAttrs (attributeValueOf p), ClipText v,
                   Write (outputDevice p) (msgCopied k), Write (outputDevice p) endl] @ rest
    \<and> clipped rest = (if timeoutOf p = [] then [] else [[]])
    \<and> (timeoutOf p = [] \<longrightarrow> rest = [] \<and> clipboard s' = snd (clipText env v (clipboard s)))"
proof -
  have res: "resolveValue env p (outputDevice p) (entryPathOf p) e (emit [FindEntry (entryPathOf p)] s)
      = Inr (v, k, emit [FindEntry (entryPathOf p), FindAttrs (attributeValueOf p)] s)"
    using no_totp match stored
    by (simp add: resolveValue_attribute attributeValue_def emit_def)
  have run: "executeWithDatabase env p s =
      Some (copyAndClear env (outputDevice p) (timeoutSecondsOf p) v k
              (emit [FindEntry (entryPathOf p), FindAttrs (attributeValueOf p)] s))"
    using exec_resolved [OF args timeout entry] no_totp res by simp
  show ?thesis
  proof (cases "timeoutOf p = []")
    case True
    then have "timeoutSecondsOf p = 0" by (simp add: timeoutSecondsOf_def)
    then show ?thesis
      using run written True by (simp add: copyAndClear_eq emit_def)
  next
    case False
    then have "timeoutSecondsOf p \<noteq> 0"
      using timeout by (simp add: timeoutSecondsOf_def)
    then show ?thesis
      using run written False by (simp add: copyAndClear_eq emit_def clipped_clearing)
  qed
qed


theorem unique_match_copied_witness:
  "executeWithDatabase demoEnv (invocation [''db'', ''Root/Email''] False (Some ''pass'') False) demoState =
     Some (EXIT_SUCCESS,
       \<lparr>trace = [FindEntry ''Root/Email'', FindAttrs ''pass'', ClipText ''secret123'',
                 Write STDOUT (msgCopied ''password''), Write STDOUT endl],
          clipboard = ''secret123''\<rparr>)"
proof -
  let ?p = "invocation [''db'', ''Root/Email''] False (Some ''pass'') False"
  have args: "2 \<le> length (positionalArguments ?p)"
    by (simp add: invocation_def)
  have none: "timeoutOf ?p = []"
    by (simp add: timeoutOf_def invocation_def)
  then have timeout: "\<not> (timeoutOf ?p \<noteq> [] \<and> toInt (timeoutOf ?p) \<le> 0)"
    by simp
  have entry: "findEntryByPath demoEnv (entryPathOf ?p) = Some demoEntry"
    by (simp add: demoEnv_def entryPathOf_def invocation_def)
  have no_totp: "\<not> totpOption ?p" "attributeValueOf ?p \<noteq> ''totp''"
    by (simp_all add: invocation_def attributeValueOf_def)
  have match: "findAttributes demoEnv (attributes demoEntry) (attributeValueOf ?p) = [''password'']"
    by (simp add: demoEnv_def demoFindAttributes_def demoEntry_def demoKeys_def
          attributeValueOf_def invocation_def)
  have stored: "attributes demoEntry ''password'' = Some ''secret123''"
    by (simp add: demoEntry_def)
  have written: "fst (clipText demoEnv ''secret123'' (clipboard demoState)) = EXIT_SUCCESS"
    by (simp add: demoEnv_def)
  from unique_match_copied [OF args timeout entry no_totp match stored written]
  obtain s' rest where run: "executeWithDatabase demoEnv ?p demoState = Some (EXIT_SUCCESS, s')"
    and tr: "trace s' =
        trace demoState @ [FindEntry (entryPathOf ?p), FindAttrs (attributeValueOf ?p),
          ClipText ''secret123'', Write (outputDevice ?p) (msgCopied ''password''),
          Write (outputDevice ?p) endl] @ rest"
    and last: "timeoutOf ?p = [] \<longrightarrow>
        rest = [] \<and> clipboard s' = snd (clipText demoEnv ''secret123'' (clipboard demoState))"
    by blast
  from last none have "rest = []"
    and "clipboard s' = snd (clipText demoEnv ''secret123'' (clipboard demoState))"
    by simp_all
  with tr have "s' =
      \<lparr>trace = [FindEntry ''Root/Email'', FindAttrs ''pass'', ClipText ''secret123'',
                Write STDOUT (msgCopied ''password''), Write STDOUT endl],
         clipboard = ''secret123''\<rparr>"
    by (cases s')
      (simp add: demoState_def demoEnv_def entryPathOf_def attributeValueOf_def outputDevice_def
        invocation_def)
  with run show ?thesis by simp
qed

text \<open>
  C6. Under the same conditions, a query that matches no key fails with the message
  "Attribute ... not found." naming the query, written to the output stream of the command
  and not to the error stream, with \<open>EXIT_FAILURE\<close> and the clipboard untouched; a query
  that matches several keys fails with the ambiguity message on the error stream, which
  lists the keys exactly as \<open>findAttributes\<close> returned them.
\<close>

theorem no_match_and_ambiguity:
  assumes args: "2 \<le> length (positionalArguments p)"
    and timeout: "\<not> (timeoutOf p \<noteq> [] \<and> toInt (timeoutOf p) \<le> 0)"
    and entry: "findEntryByPath env (entryPathOf p) = Some e"
    and no_totp: "\<not> totpOption p" "attributeValueOf p \<noteq> ''totp''"
  shows "(findAttributes env (attributes e) (attributeValueOf p) = [] \<longrightarrow>
           executeWithDatabase env p s =
             Some (EXIT_FAILURE,
                   emit [FindEntry (entryPathOf p), FindAttrs (attributeValueOf p),
                         Write (outputDevice p) (msgAttributeNotFound (attributeValueOf p)),
                         Write (outputDevice p) endl] s))
       \<and> (1 < length (findAttributes env (attributes e) (attributeValueOf p)) \<longrightarrow>
           executeWithDatabase env p s =
             Some (EXIT_FAILURE,
                   emit [FindEntry (entryPathOf p), FindAttrs (attributeValueOf p),
                         Write STDERR
                           (msgAmbiguous (attributeValueOf p)
                              (createSeparatedList env
                                 (findAttributes env (attributes e) (attributeValueOf p)))),
                         Write STDERR endl] s))"
proof -
  have run: "executeWithDatabase env p s =
     (case resolveValue env p (outputDevice p) (entryPathOf p) e (emit [FindEntry (entryPathOf p)] s) of
        Inl failure \<Rightarrow> Some failure
      | Inr (v, k, s2) \<Rightarrow>
          Some (copyAndClear env (outputDevice p) (timeoutSecondsOf p) v k s2))"
    using exec_resolved [OF args timeout entry] no_totp by simp
  show ?thesis
    unfolding run resolveValue_attribute [OF no_totp]
    by (cases "findAttributes env (attributes e) (attributeValueOf p)")
       (auto simp add: emit_def split: list.splits)
qed

theorem no_match_and_ambiguity_witness:
  "executeWithDatabase demoEnv (invocation [''db'', ''Root/Email''] False (Some ''xyz'') False) demoState =
     Some (EXIT_FAILURE,
       \<lparr>trace = [FindEntry ''Root/Email'', FindAttrs ''xyz'',
                 Write STDOUT (msgAttributeNotFound ''xyz''), Write STDOUT endl],
          clipboard = ''old''\<rparr>)
   \<and> executeWithDatabase demoEnv (invocation [''db'', ''Root/Email''] False (Some ''User'') False) demoState =
     Some (EXIT_FAILURE,
       \<lparr>trace = [FindEntry ''Root/Email'', FindAttrs ''User'',
                 Write STDERR (msgAmbiguous ''User'' (demoSeparated [''UserName'', ''User-Id''])),
                 Write STDERR endl],
          clipboard = ''old''\<rparr>)"
proof -
  let ?p = "invocation [''db'', ''Root/Email''] False (Some ''xyz'') False"
  let ?q = "invocation [''db'', ''Root/Email''] False (Some ''User'') False"
  have args: "2 \<le> length (positionalArguments ?p)" "2 \<le> length (positionalArguments ?q)"
    by (simp_all add: invocation_def)
  have timeout: "\<not> (timeoutOf ?p \<noteq> [] \<and> toInt (timeoutOf ?p) \<le> 0)"
      "\<not> (timeoutOf ?q \<noteq> [] \<and> toInt (timeoutOf ?q) \<le> 0)"
    by (simp_all add: timeoutOf_def invocation_def)
  have entry: "findEntryByPath demoEnv (entryPathOf ?p) = Some demoEntry"
      "findEntryByPath demoEnv (entryPathOf ?q) = Some demoEntry"
    by (simp_all add: demoEnv_def entryPathOf_def invocation_def)
  have no_totp: "\<not> totpOption ?p" "attributeValueOf ?p \<noteq> ''totp''"
      "\<not> totpOption ?q" "attributeValueOf ?q \<noteq> ''totp''"
    by (simp_all add: invocation_def attributeValueOf_def)
  have none: "findAttributes demoEnv (attributes demoEntry) (attributeValueOf ?p) = []"
    by (simp add: demoEnv_def demoFindAttributes_def demoEntry_def demoKeys_def
          attributeValueOf_def invocation_def)
  have two: "findAttributes demoEnv (attributes demoEntry) (attributeValueOf ?q) = [''UserName'', ''User-Id'']"
    by (simp add: demoEnv_def demoFindAttributes_def demoEntry_def demoKeys_def
          attributeValueOf_def invocation_def)
  have first: "executeWithDatabase demoEnv ?p demoState =
      Some (EXIT_FAILURE,
            emit [FindEntry (entryPathOf ?p), FindAttrs (attributeValueOf ?p),
                  Write (outputDevice ?p) (msgAttributeNotFound (attributeValueOf ?p)),
                  Write (outputDevice ?p) endl] demoState)"
    using no_match_and_ambiguity [OF args(1) timeout(1) entry(1) no_totp(1,2), of demoState] none
    by simp
  have second: "executeWithDatabase demoEnv ?q demoState =
      Some (EXIT_FAILURE,
            emit [FindEntry (entryPathOf ?q), FindAttrs (attributeValueOf ?q),
                  Write STDERR (msgAmbiguous (attributeValueOf ?q)
                     (createSeparatedList demoEnv [''UserName'', ''User-Id''])),
                  Write STDERR endl] demoState)"
    using no_match_and_ambiguity [OF args(2) timeout(2) entry(2) no_totp(3,4), of demoState] two
    by simp
  show ?thesis
    unfolding first second
    by (simp add: emit_def demoState_def demoEnv_def entryPathOf_def attributeValueOf_def
          outputDevice_def invocation_def)
qed


subsection \<open>Every run is of one of four kinds\<close>

lemma exit_codes_differ [simp]: "EXIT_FAILURE \<noteq> EXIT_SUCCESS" "EXIT_SUCCESS \<noteq> EXIT_FAILURE"
  by (simp_all add: EXIT_FAILURE_def EXIT_SUCCESS_def)

lemma resolveValue_Inr:
  assumes "resolveValue env p out path e s = Inr (v, k, s2)"
  shows "s2 = s \<or> s2 = emit [FindAttrs (attributeValueOf p)] s"
  using assms
  by (auto simp add: resolveValue_def Let_def split: if_splits)

lemma resolveValue_Inl:
  assumes "resolveValue env p out path e s = Inl (rc, s2)"
  shows "rc = EXIT_FAILURE \<and> (\<exists>evs. s2 = emit evs s \<and> clipped evs = [] \<and> sleeps evs = 0)"
proof -
  have "rc = EXIT_FAILURE"
    using assms by (auto simp add: resolveValue_def Let_def split: if_splits)
  moreover have "\<exists>evs. s2 = emit evs s \<and> clipped evs = [] \<and> sleeps evs = 0"
  proof (cases "totpOption p \<or> attributeValueOf p = ''totp''")
    case True
    then have "s2 = emit [Write STDERR (msgNoTotp path), Write STDERR endl] s"
      using assms by (auto simp add: resolveValue_def Let_def split: if_splits)
    then show ?thesis by (intro exI [of _ "[Write STDERR (msgNoTotp path), Write STDERR endl]"]) simp
  next
    case False
    let ?q = "attributeValueOf p"
    let ?attrs = "findAttributes env (attributes e) ?q"
    from False assms have
      "s2 = emit [FindAttrs ?q, Write STDERR (msgAmbiguous ?q (createSeparatedList env ?attrs)), Write STDERR endl] s
     \<or> s2 = emit [FindAttrs ?q, Write out (msgAttributeNotFound ?q), Write out endl] s"
      by (auto simp add: resolveValue_def Let_def emit_def split: if_splits)
    then show ?thesis
    proof
      assume "s2 = emit [FindAttrs ?q, Write STDERR (msgAmbiguous ?q (createSeparatedList env ?attrs)), Write STDERR endl] s"
      then show ?thesis
        by (intro exI [of _ "[FindAttrs ?q, Write STDERR (msgAmbiguous ?q (createSeparatedList env ?attrs)), Write STDERR endl]"]) simp
    next
      assume "s2 = emit [FindAttrs ?q, Write out (msgAttributeNotFound ?q), Write out endl] s"
      then show ?thesis
        by (intro exI [of _ "[FindAttrs ?q, Write out (msgAttributeNotFound ?q), Write out endl]"]) simp
    qed
  qed
  ultimately show ?thesis by simp
qed

lemma emit_emit [simp]: "emit ys (emit xs s) = emit (xs @ ys) s"
  by (simp add: emit_def)

lemma emit_fields [simp]: "trace (emit evs s) = trace s @ evs" "clipboard (emit evs s) = clipboard s"
  by (simp_all add: emit_def)

lemma exec_cases [consumes 1, case_names failed write_failed copied cleared]:
  assumes run: "executeWithDatabase env p s = Some (rc, s')"
  obtains
    (failed) evs where "rc = EXIT_FAILURE" and "s' = emit evs s"
      and "clipped evs = []" and "sleeps evs = 0"
  | (write_failed) pre v where "rc = fst (clipText env v (clipboard s))" and "rc \<noteq> EXIT_SUCCESS"
      and "trace s' = trace s @ pre @ [ClipText v]"
      and "clipboard s' = snd (clipText env v (clipboard s))"
      and "pre = [FindEntry (entryPathOf p)]
           \<or> pre = [FindEntry (entryPathOf p), FindAttrs (attributeValueOf p)]"
  | (copied) pre v k where "rc = EXIT_SUCCESS" and "timeoutOf p = []"
      and "fst (clipText env v (clipboard s)) = EXIT_SUCCESS"
      and "trace s' = trace s @ pre @ [ClipText v, Write (outputDevice p) (msgCopied k),
                                       Write (outputDevice p) endl]"
      and "clipboard s' = snd (clipText env v (clipboard s))"
      and "pre = [FindEntry (entryPathOf p)]
           \<or> pre = [FindEntry (entryPathOf p), FindAttrs (attributeValueOf p)]"
  | (cleared) pre v k where "rc = EXIT_SUCCESS" and "timeoutOf p \<noteq> []"
      and "0 < toInt (timeoutOf p)"
      and "fst (clipText env v (clipboard s)) = EXIT_SUCCESS"
      and "trace s' = trace s @ pre @ [ClipText v, Write (outputDevice p) (msgCopied k),
                                       Write (outputDevice p) endl]
                        @ clearing (outputDevice p) (toInt (timeoutOf p))"
      and "clipboard s' = snd (clipText env [] (snd (clipText env v (clipboard s))))"
      and "pre = [FindEntry (entryPathOf p)]
           \<or> pre = [FindEntry (entryPathOf p), FindAttrs (attributeValueOf p)]"
proof -
  let ?path = "entryPathOf p"
  have args: "2 \<le> length (positionalArguments p)"
    using run by (auto simp add: executeWithDatabase_def split: if_splits)
  show thesis
  proof (cases "timeoutOf p \<noteq> [] \<and> toInt (timeoutOf p) \<le> 0")
    case True
    with run args have "rc = EXIT_FAILURE"
      and "s' = emit [Write STDERR (msgInvalidTimeout (timeoutOf p)), Write STDERR endl] s"
      by (auto simp add: executeWithDatabase_def)
    then show thesis by (rule failed) simp_all
  next
    case valid: False
    show thesis
    proof (cases "findEntryByPath env ?path")
      case None
      with run args valid have "rc = EXIT_FAILURE"
        and "s' = emit [FindEntry ?path, Write STDERR (msgEntryNotFound ?path), Write STDERR endl] s"
        by (auto simp add: executeWithDatabase_def Let_def)
      then show thesis by (rule failed) simp_all
    next
      case (Some e)
      show thesis
      proof (cases "attributeIsSet p \<and> totpOption p")
        case True
        with run args valid Some have "rc = EXIT_FAILURE"
          and "s' = emit [FindEntry ?path, Write STDERR msgConflict, Write STDERR endl] s"
          by (auto simp add: executeWithDatabase_def Let_def)
        then show thesis by (rule failed) simp_all
      next
        case False
        note unfolded = exec_resolved [OF args valid Some False, of s]
        show thesis
        proof (cases "resolveValue env p (outputDevice p) ?path e (emit [FindEntry ?path] s)")
          case (Inl failure)
          then have res: "resolveValue env p (outputDevice p) ?path e (emit [FindEntry ?path] s) = Inl (rc, s')"
            using run unfolded by simp
          from resolveValue_Inl [OF res] obtain evs where "rc = EXIT_FAILURE"
            and "s' = emit evs (emit [FindEntry ?path] s)" and "clipped evs = []" and "sleeps evs = 0"
            by blast
          then show thesis
            by (intro failed [of "[FindEntry ?path] @ evs"]) simp_all
        next
          case (Inr ok)
          obtain v k s2 where ok: "ok = (v, k, s2)" by (cases ok)
          with Inr have res: "resolveValue env p (outputDevice p) ?path e (emit [FindEntry ?path] s) = Inr (v, k, s2)"
            by simp
          from resolveValue_Inr [OF res] obtain pre where s2: "s2 = emit pre s"
            and pre: "pre = [FindEntry ?path] \<or> pre = [FindEntry ?path, FindAttrs (attributeValueOf p)]"
            by auto
          have result: "(rc, s') = copyAndClear env (outputDevice p) (timeoutSecondsOf p) v k (emit pre s)"
            using run unfolded res s2 by simp
          show thesis
          proof (cases "fst (clipText env v (clipboard s)) = EXIT_SUCCESS")
            case False
            with result have "rc = fst (clipText env v (clipboard s))"
              and "s' = \<lparr>trace = trace s @ pre @ [ClipText v], clipboard = snd (clipText env v (clipboard s))\<rparr>"
              by (simp_all add: copyAndClear_eq)
            with False pre show thesis by (intro write_failed [of v pre]) simp_all
          next
            case written: True
            show thesis
            proof (cases "timeoutOf p = []")
              case True
              then have "timeoutSecondsOf p = 0" by (simp add: timeoutSecondsOf_def)
              with result written have "rc = EXIT_SUCCESS"
                and "s' = \<lparr>trace = trace s @ pre @ [ClipText v, Write (outputDevice p) (msgCopied k),
                                       Write (outputDevice p) endl],
                            clipboard = snd (clipText env v (clipboard s))\<rparr>"
                by (simp_all add: copyAndClear_eq)
              with True written pre show thesis by (intro copied [of v pre k]) simp_all
            next
              case False
              with valid have pos: "0 < toInt (timeoutOf p)" by simp
              with False have secs: "timeoutSecondsOf p = toInt (timeoutOf p)" "timeoutSecondsOf p \<noteq> 0"
                by (simp_all add: timeoutSecondsOf_def)
              with result written have "rc = EXIT_SUCCESS"
                and "s' = \<lparr>trace = trace s @ pre @ [ClipText v, Write (outputDevice p) (msgCopied k),
                                       Write (outputDevice p) endl]
                                  @ clearing (outputDevice p) (toInt (timeoutOf p)),
                            clipboard = snd (clipText env [] (snd (clipText env v (clipboard s))))\<rparr>"
                by (simp_all add: copyAndClear_eq)
              with False pos written pre show thesis by (intro cleared [of v pre k]) simp_all
            qed
          qed
        qed
      qed
    qed
  qed
qed


subsection \<open>The output stream and \<open>--quiet\<close>\<close>

lemma outputDevice_not_STDERR [simp]: "outputDevice p \<noteq> STDERR" "STDERR \<noteq> outputDevice p"
  by (simp_all add: outputDevice_def)

lemma printed_append [simp]: "printed d (xs @ ys) = printed d xs @ printed d ys"
  by (simp add: printed_def)

lemma printed_simps [simp]:
  "printed d [] = []"
  "printed d (Write d' t # evs) =
     (if d' = d \<and> \<not> isPadding t then t # printed d evs else printed d evs)"
  "printed d (FindEntry path # evs) = printed d evs"
  "printed d (FindAttrs q # evs) = printed d evs"
  "printed d (ClipText v # evs) = printed d evs"
  "printed d (Sleep ms # evs) = printed d evs"
  by (simp_all add: printed_def)

lemma printed_eraseLine [simp]: "printed d (eraseLine out l) = []"
  by (simp add: eraseLine_def)

lemma messages_visible [simp]: "\<not> isPadding (msgCopied k)" "\<not> isPadding endl"
  by (simp_all add: isPadding_def msgCopied_def endl_def CR_def)

lemma printed_clearing [simp]:
  "printed out (clearing out n) = statusLines (nat n) @ [msgCleared, endl]"
  by (simp add: clearing_def)

text \<open>
  C2 (as amended). In every successful run with a timeout, the confirmation, the countdown
  lines and the final "Clipboard cleared!" are all written to the one output stream of the
  command, the last of them at the very end. Under \<open>--quiet\<close> that stream is the null
  device: nothing at all reaches standard output, the clearing message included. Without
  \<open>--quiet\<close> the stream is standard output.
\<close>

theorem cleared_message_follows_stream:
  assumes run: "executeWithDatabase env p s = Some (EXIT_SUCCESS, s')"
    and timeout: "timeoutOf p \<noteq> []"
  shows "\<exists>evs k. trace s' =
             trace s @ evs @ [Write (outputDevice p) msgCleared, Write (outputDevice p) endl]
         \<and> printed (outputDevice p) evs =
             [msgCopied k, endl] @ statusLines (nat (toInt (timeoutOf p)))
         \<and> writes STDERR evs = []
         \<and> (quietOption p \<longrightarrow> outputDevice p = DEVNULL \<and> writes STDOUT evs = [])
         \<and> (\<not> quietOption p \<longrightarrow> outputDevice p = STDOUT \<and> writes DEVNULL evs = [])"
  using run
proof (cases rule: exec_cases)
  case (cleared pre v k)
  let ?out = "outputDevice p"
  let ?evs = "pre @ [ClipText v, Write ?out (msgCopied k), Write ?out endl]
      @ ticks ?out (nat (toInt (timeoutOf p))) [] @ [ClipText []]
      @ eraseLine ?out (lastLineAfter (toInt (timeoutOf p)) [])"
  have "trace s' = trace s @ ?evs @ [Write ?out msgCleared, Write ?out endl]"
    using cleared by (simp add: clearing_def)
  moreover have "printed ?out ?evs = [msgCopied k, endl] @ statusLines (nat (toInt (timeoutOf p)))"
    using cleared(7) by auto
  moreover have "writes STDERR ?evs = []"
    using cleared(7) by auto
  moreover have "quietOption p \<longrightarrow> ?out = DEVNULL \<and> writes STDOUT ?evs = []"
    using cleared(7) by (auto simp add: outputDevice_def)
  moreover have "\<not> quietOption p \<longrightarrow> ?out = STDOUT \<and> writes DEVNULL ?evs = []"
    using cleared(7) by (auto simp add: outputDevice_def)
  ultimately show ?thesis by blast
qed (use timeout in simp_all)


lemma quietRun_result:
  "executeWithDatabase demoEnv quietRun demoState =
     Some (EXIT_SUCCESS, \<lparr>trace = quietRunTrace, clipboard = []\<rparr>)"
  by code_simp

theorem cleared_message_follows_stream_witness:
  "executeWithDatabase demoEnv quietRun demoState =
     Some (EXIT_SUCCESS, \<lparr>trace = quietRunTrace, clipboard = []\<rparr>)
   \<and> timeoutOf quietRun \<noteq> []
   \<and> (\<exists>evs. quietRunTrace = evs @ [Write DEVNULL msgCleared, Write DEVNULL endl]
           \<and> writes STDOUT evs = [])"
proof -
  have timeout: "timeoutOf quietRun \<noteq> []"
    by (simp add: timeoutOf_def quietRun_def invocation_def)
  have quiet: "quietOption quietRun"
    by (simp add: quietRun_def invocation_def)
  from cleared_message_follows_stream [OF quietRun_result timeout] quiet
  obtain evs where "trace \<lparr>trace = quietRunTrace, clipboard = []\<rparr> =
      trace demoState @ evs @ [Write DEVNULL msgCleared, Write DEVNULL endl]"
    and "writes STDOUT evs = []"
    by auto
  then have "\<exists>evs. quietRunTrace = evs @ [Write DEVNULL msgCleared, Write DEVNULL endl]
               \<and> writes STDOUT evs = []"
    by (auto simp add: demoState_def)
  with quietRun_result timeout show ?thesis by simp
qed

text \<open>
  C2 as the specification states it fails: in a quiet run with a timeout that succeeds,
  standard output and the error stream stay empty; "Clipboard cleared!" goes to the null
  device like the rest.
\<close>

theorem cleared_message_under_quiet_counterexample:
  "executeWithDatabase demoEnv quietRun demoState =
     Some (EXIT_SUCCESS, \<lparr>trace = quietRunTrace, clipboard = []\<rparr>)
   \<and> quietOption quietRun
   \<and> writes STDOUT quietRunTrace = []
   \<and> writes STDERR quietRunTrace = []"
  by code_simp

subsection \<open>The clipboard\<close>

lemma pre_observed:
  assumes "pre = [FindEntry path] \<or> pre = [FindEntry path, FindAttrs q]"
  shows "sleeps pre = 0" "clipped pre = []" "writes d pre = []" "printed d pre = []"
  using assms by auto

text \<open>
  A successful run with a timeout has parsed it to a positive number \<open>N\<close>. After the
  confirmation it runs \<open>N\<close> rounds of the countdown, whose visible lines are the \<open>N\<close> status
  lines for \<open>N\<close> down to 1, then writes the empty string to the clipboard, and only then
  erases the last line and prints "Clipboard cleared!". The clipboard is whatever that last
  write leaves, so its content is empty when a write of the empty string leaves it empty.
\<close>

lemma countdown_then_clear:
  assumes run: "executeWithDatabase env p s = Some (EXIT_SUCCESS, s')"
    and timeout: "timeoutOf p \<noteq> []"
    and clear: "\<And>c. content (snd (clipText env [] c)) = []"
  shows "0 < toInt (timeoutOf p)
       \<and> content (clipboard s') = []
       \<and> (\<exists>pre v k.
             trace s' =
               trace s @ pre
                 @ [ClipText v, Write (outputDevice p) (msgCopied k), Write (outputDevice p) endl]
                 @ ticks (outputDevice p) (nat (toInt (timeoutOf p))) []
                 @ [ClipText []] @ eraseLine (outputDevice p) (msgClearing 1)
                 @ [Write (outputDevice p) msgCleared, Write (outputDevice p) endl]
           \<and> sleeps pre = 0 \<and> clipped pre = [] \<and> printed (outputDevice p) pre = [])
       \<and> printed (outputDevice p) (ticks (outputDevice p) (nat (toInt (timeoutOf p))) []) =
           statusLines (nat (toInt (timeoutOf p)))
       \<and> int (length (statusLines (nat (toInt (timeoutOf p))))) = toInt (timeoutOf p)"
  using run
proof (cases rule: exec_cases)
  case (cleared pre v k)
  let ?out = "outputDevice p"
  have "content (clipboard s') = []"
    using cleared(6) clear by simp
  moreover have "trace s' =
      trace s @ pre @ [ClipText v, Write ?out (msgCopied k), Write ?out endl]
        @ ticks ?out (nat (toInt (timeoutOf p))) []
        @ [ClipText []] @ eraseLine ?out (msgClearing 1)
        @ [Write ?out msgCleared, Write ?out endl]"
    using cleared(3,5) by (simp add: clearing_def lastLineAfter_def)
  ultimately show ?thesis
    using cleared(3) pre_observed [OF cleared(7)] by auto
qed (use timeout in simp_all)

text \<open>
  C4. The code at the input where the claim fails: the clipboard program accepts the secret
  and fails when it is asked to clear. The run counts down its two seconds with the two
  status lines, asks for the clearing, prints "Clipboard cleared!" and returns
  \<open>EXIT_SUCCESS\<close>, while the clipboard still holds the secret: the exit code of the
  clearing write is dropped, where that of the first write is checked.
\<close>

theorem clearing_failure_unnoticed:
  "executeWithDatabase staleEnv clearRun demoState =
     Some (EXIT_SUCCESS, \<lparr>trace = countdownRunTrace, clipboard = ''secret123''\<rparr>)
   \<and> fst (clipText staleEnv [] ''secret123'') = EXIT_FAILURE
   \<and> clipped countdownRunTrace = [''secret123'', []]
   \<and> printed STDOUT countdownRunTrace =
       [msgCopied ''password'', endl, msgClearing 2, msgClearing 1, msgCleared, endl]"
  by code_simp

text \<open>
  C8. If the first clipboard write of a run, of a value \<open>v\<close>, reports a failure, then the exit
  code of the run is the code that \<open>clipText\<close> returned, that write is the last event of the
  run and the only clipboard write, and the run has printed nothing on any stream and has
  not slept.
\<close>

theorem clipboard_failure_propagates:
  assumes run: "executeWithDatabase env p s = Some (rc, s')"
    and events: "trace s' = trace s @ evs"
    and first: "clipped evs = v # vs"
    and failure: "fst (clipText env v (clipboard s)) \<noteq> EXIT_SUCCESS"
  shows "rc = fst (clipText env v (clipboard s))
       \<and> clipboard s' = snd (clipText env v (clipboard s))
       \<and> vs = []
       \<and> (\<exists>pre. evs = pre @ [ClipText v] \<and> clipped pre = [])
       \<and> sleeps evs = 0
       \<and> writes STDOUT evs = [] \<and> writes DEVNULL evs = [] \<and> writes STDERR evs = []"
  using run
proof (cases rule: exec_cases)
  case (failed evs')
  with events first show ?thesis by simp
next
  case (write_failed pre v')
  from write_failed(3) events have evs: "evs = pre @ [ClipText v']" by simp
  with first pre_observed [OF write_failed(5)] have "v' = v" "vs = []" by simp_all
  with evs write_failed pre_observed [OF write_failed(5)] show ?thesis by auto
next
  case (copied pre v' k)
  from copied(4) events have "evs = pre @ [ClipText v', Write (outputDevice p) (msgCopied k),
      Write (outputDevice p) endl]" by simp
  with first pre_observed [OF copied(6)] have "v' = v" by simp
  with copied(3) failure show ?thesis by simp
next
  case (cleared pre v' k)
  from cleared(5) events have "evs = pre @ [ClipText v', Write (outputDevice p) (msgCopied k),
      Write (outputDevice p) endl] @ clearing (outputDevice p) (toInt (timeoutOf p))" by simp
  with first pre_observed [OF cleared(7)] have "v' = v" by simp
  with cleared(4) failure show ?thesis by simp
qed

lemma failingRun_result:
  "executeWithDatabase brokenEnv failingRun demoState =
     Some (2, \<lparr>trace = [FindEntry ''Root/Email'', FindAttrs ''password'', ClipText ''secret123''],
                clipboard = ''old''\<rparr>)"
  by code_simp

theorem clipboard_failure_propagates_witness:
  "executeWithDatabase brokenEnv failingRun demoState =
     Some (2, \<lparr>trace = [FindEntry ''Root/Email'', FindAttrs ''password'', ClipText ''secret123''],
                clipboard = ''old''\<rparr>)
   \<and> fst (clipText brokenEnv ''secret123'' (clipboard demoState)) \<noteq> EXIT_SUCCESS
   \<and> fst (clipText brokenEnv ''secret123'' (clipboard demoState)) = 2
   \<and> sleeps [FindEntry ''Root/Email'', FindAttrs ''password'', ClipText ''secret123''] = 0"
proof -
  let ?evs = "[FindEntry ''Root/Email'', FindAttrs ''password'', ClipText ''secret123'']"
  have events: "trace \<lparr>trace = ?evs, clipboard = ''old''\<rparr> = trace demoState @ ?evs"
    by (simp add: demoState_def)
  have first: "clipped ?evs = ''secret123'' # []"
    by simp
  have failure: "fst (clipText brokenEnv ''secret123'' (clipboard demoState)) \<noteq> EXIT_SUCCESS"
    by (simp add: brokenEnv_def demoEnv_def EXIT_SUCCESS_def)
  from clipboard_failure_propagates [OF failingRun_result events first failure]
  have "2 = fst (clipText brokenEnv ''secret123'' (clipboard demoState))" and "sleeps ?evs = 0"
    by simp_all
  with failingRun_result failure show ?thesis by simp
qed

subsection \<open>The timeout argument\<close>

lemma rejected_examples:
  "toInt ''0'' \<le> 0" "toInt ''-5'' \<le> 0" "toInt ''abc'' \<le> 0"
  by code_simp+

text \<open>
  C7. With two positional arguments or more: a timeout that is "0", "-5" or "abc", or any
  non-empty one that the conversion does not make positive, fails with the "Invalid timeout
  value" message on the error stream and \<open>EXIT_FAILURE\<close>, with no entry lookup and no
  clipboard write in the trace. With an empty or absent timeout no run sleeps or writes to
  the clipboard twice, and a successful run ends with the clipboard write and its
  confirmation. Any other timeout is a positive number, which is \<open>timeoutSeconds\<close>: a
  successful run sleeps that many times, once for each status line, before it confirms the
  clearing.
\<close>

theorem timeout_argument:
  assumes args: "2 \<le> length (positionalArguments p)"
  shows
    "(timeoutOf p \<in> {''0'', ''-5'', ''abc''} \<or> (timeoutOf p \<noteq> [] \<and> toInt (timeoutOf p) \<le> 0) \<longrightarrow>
        executeWithDatabase env p s =
          Some (EXIT_FAILURE,
                emit [Write STDERR (msgInvalidTimeout (timeoutOf p)), Write STDERR endl] s))
   \<and> (timeoutOf p = [] \<longrightarrow>
        (\<forall>rc s'. executeWithDatabase env p s = Some (rc, s') \<longrightarrow>
           (\<exists>evs. trace s' = trace s @ evs \<and> sleeps evs = 0 \<and> length (clipped evs) \<le> 1
              \<and> (rc = EXIT_SUCCESS \<longrightarrow>
                   (\<exists>pre v k. evs = pre @ [ClipText v, Write (outputDevice p) (msgCopied k),
                                             Write (outputDevice p) endl]
                      \<and> clipped pre = [])))))
   \<and> (timeoutOf p \<noteq> [] \<and> 0 < toInt (timeoutOf p) \<longrightarrow>
        timeoutSecondsOf p = toInt (timeoutOf p)
        \<and> (\<forall>s'. executeWithDatabase env p s = Some (EXIT_SUCCESS, s') \<longrightarrow>
             (\<exists>evs k. trace s' = trace s @ evs
                \<and> int (sleeps evs) = toInt (timeoutOf p)
                \<and> printed (outputDevice p) evs =
                    [msgCopied k, endl] @ statusLines (nat (toInt (timeoutOf p)))
                      @ [msgCleared, endl])))"
proof (intro conjI impI allI)
  assume "timeoutOf p \<in> {''0'', ''-5'', ''abc''} \<or> (timeoutOf p \<noteq> [] \<and> toInt (timeoutOf p) \<le> 0)"
  then have "timeoutOf p \<noteq> [] \<and> toInt (timeoutOf p) \<le> 0"
    using rejected_examples by auto
  then show "executeWithDatabase env p s =
      Some (EXIT_FAILURE,
            emit [Write STDERR (msgInvalidTimeout (timeoutOf p)), Write STDERR endl] s)"
    using args by (simp add: executeWithDatabase_def)
next
  fix rc s'
  assume none: "timeoutOf p = []" and run: "executeWithDatabase env p s = Some (rc, s')"
  let ?out = "outputDevice p"
  let ?goal = "\<exists>evs. trace s' = trace s @ evs \<and> sleeps evs = 0 \<and> length (clipped evs) \<le> 1
      \<and> (rc = EXIT_SUCCESS \<longrightarrow>
           (\<exists>pre v k. evs = pre @ [ClipText v, Write ?out (msgCopied k), Write ?out endl]
              \<and> clipped pre = []))"
  from run show ?goal
  proof (cases rule: exec_cases)
    case (failed evs)
    then show ?thesis
      by (intro exI [of _ evs]) simp
  next
    case (write_failed pre v)
    then show ?thesis
      using pre_observed [OF write_failed(5)] by (intro exI [of _ "pre @ [ClipText v]"]) simp
  next
    case (copied pre v k)
    then show ?thesis
      using pre_observed [OF copied(6)]
      by (intro exI [of _ "pre @ [ClipText v, Write ?out (msgCopied k), Write ?out endl]"]) auto
  next
    case (cleared pre v k)
    with none show ?thesis by simp
  qed
next
  assume "timeoutOf p \<noteq> [] \<and> 0 < toInt (timeoutOf p)"
  then show "timeoutSecondsOf p = toInt (timeoutOf p)"
    by (simp add: timeoutSecondsOf_def)
next
  fix s'
  assume given: "timeoutOf p \<noteq> [] \<and> 0 < toInt (timeoutOf p)"
    and run: "executeWithDatabase env p s = Some (EXIT_SUCCESS, s')"
  let ?out = "outputDevice p"
  from run show "\<exists>evs k. trace s' = trace s @ evs
      \<and> int (sleeps evs) = toInt (timeoutOf p)
      \<and> printed ?out evs =
          [msgCopied k, endl] @ statusLines (nat (toInt (timeoutOf p))) @ [msgCleared, endl]"
  proof (cases rule: exec_cases)
    case (cleared pre v k)
    then show ?thesis
      using pre_observed [OF cleared(7)]
      by (intro exI [of _ "pre @ [ClipText v, Write ?out (msgCopied k), Write ?out endl]
            @ clearing ?out (toInt (timeoutOf p))"] exI [of _ k]) simp
  qed (use given in simp_all)
qed

lemma plainRun_result:
  "executeWithDatabase demoEnv plainRun demoState =
     Some (EXIT_SUCCESS, \<lparr>trace = plainRunTrace, clipboard = ''secret123''\<rparr>)"
  by code_simp

theorem timeout_argument_witness:
  "executeWithDatabase demoEnv badTimeoutRun demoState =
     Some (EXIT_FAILURE,
           \<lparr>trace = [Write STDERR (msgInvalidTimeout ''-5''), Write STDERR endl],
              clipboard = ''old''\<rparr>)
   \<and> timeoutOf badTimeoutRun \<in> {''0'', ''-5'', ''abc''}
   \<and> timeoutOf plainRun = []
   \<and> executeWithDatabase demoEnv plainRun demoState =
       Some (EXIT_SUCCESS, \<lparr>trace = plainRunTrace, clipboard = ''secret123''\<rparr>)
   \<and> (\<exists>evs. plainRunTrace = evs \<and> sleeps evs = 0 \<and> length (clipped evs) \<le> 1)
   \<and> timeoutOf quietRun \<noteq> [] \<and> 0 < toInt (timeoutOf quietRun)
   \<and> timeoutSecondsOf quietRun = toInt (timeoutOf quietRun)
   \<and> executeWithDatabase demoEnv quietRun demoState =
       Some (EXIT_SUCCESS, \<lparr>trace = quietRunTrace, clipboard = []\<rparr>)
   \<and> (\<exists>evs. quietRunTrace = evs \<and> int (sleeps evs) = toInt (timeoutOf quietRun))"
proof -
  have args: "2 \<le> length (positionalArguments badTimeoutRun)"
      "2 \<le> length (positionalArguments plainRun)" "2 \<le> length (positionalArguments quietRun)"
    by (simp_all add: badTimeoutRun_def plainRun_def quietRun_def invocation_def)
  have bad: "timeoutOf badTimeoutRun = ''-5''"
    by (simp add: timeoutOf_def badTimeoutRun_def invocation_def)
  have none: "timeoutOf plainRun = []"
    by (simp add: timeoutOf_def plainRun_def invocation_def)
  have two: "timeoutOf quietRun = ''2''"
    by (simp add: timeoutOf_def quietRun_def invocation_def)
  have "toInt ''2'' = 2"
    by code_simp
  with two have given: "timeoutOf quietRun \<noteq> [] \<and> 0 < toInt (timeoutOf quietRun)"
    by simp
  have first: "executeWithDatabase demoEnv badTimeoutRun demoState =
      Some (EXIT_FAILURE,
            \<lparr>trace = [Write STDERR (msgInvalidTimeout ''-5''), Write STDERR endl],
               clipboard = ''old''\<rparr>)"
    using timeout_argument [OF args(1), of demoEnv demoState] bad
    by (simp add: emit_def demoState_def)
  have second: "\<exists>evs. plainRunTrace = evs \<and> sleeps evs = 0 \<and> length (clipped evs) \<le> 1"
    using timeout_argument [OF args(2), of demoEnv demoState] none plainRun_result
    by (auto simp add: demoState_def)
  have third: "timeoutSecondsOf quietRun = toInt (timeoutOf quietRun)
      \<and> (\<exists>evs. quietRunTrace = evs \<and> int (sleeps evs) = toInt (timeoutOf quietRun))"
    using timeout_argument [OF args(3), of demoEnv demoState] given quietRun_result
    by (auto simp add: demoState_def)
  from first bad none plainRun_result second given third quietRun_result show ?thesis
    by simp
qed

subsection \<open>TOTP\<close>

text \<open>
  When the TOTP is requested, by the flag or by the attribute name "totp", an entry without
  a TOTP fails on the error stream, and otherwise the TOTP is the value that is copied; the
  name handed on for the confirmation is the value of the attribute option as it stands.
\<close>

lemma totp_requested:
  assumes args: "2 \<le> length (positionalArguments p)"
    and timeout: "\<not> (timeoutOf p \<noteq> [] \<and> toInt (timeoutOf p) \<le> 0)"
    and entry: "findEntryByPath env (entryPathOf p) = Some e"
    and one: "\<not> (attributeIsSet p \<and> totpOption p)"
    and totp: "totpOption p \<or> attributeValueOf p = ''totp''"
  shows "executeWithDatabase env p s =
     (if hasTotp e then
        Some (copyAndClear env (outputDevice p) (timeoutSecondsOf p) (totp e) (attributeValueOf p)
                (emit [FindEntry (entryPathOf p)] s))
      else
        Some (EXIT_FAILURE,
              emit [FindEntry (entryPathOf p), Write STDERR (msgNoTotp (entryPathOf p)),
                    Write STDERR endl] s))"
  by (simp add: exec_resolved [OF args timeout entry one] resolveValue_totp [OF totp] emit_def)

text \<open>
  C3. The code at the input where the claim fails: with \<open>--totp\<close> and no \<open>--attribute\<close>, on an
  entry that has a TOTP, the TOTP is copied but the confirmation names "password", the
  default value of the attribute option. With \<open>--attribute totp\<close> the same value is copied
  and the confirmation names "totp".
\<close>

theorem totp_flag_reports_password:
  "executeWithDatabase demoEnv totpFlagRun demoState =
     Some (EXIT_SUCCESS,
       \<lparr>trace = [FindEntry ''Root/Email'', ClipText ''123456'',
                 Write STDOUT (msgCopied ''password''), Write STDOUT endl],
          clipboard = ''123456''\<rparr>)
   \<and> executeWithDatabase demoEnv totpAttributeRun demoState =
     Some (EXIT_SUCCESS,
       \<lparr>trace = [FindEntry ''Root/Email'', ClipText ''123456'',
                 Write STDOUT (msgCopied ''totp''), Write STDOUT endl],
          clipboard = ''123456''\<rparr>)"
  by code_simp

subsection \<open>The error stream under \<open>--quiet\<close>\<close>

lemma quiet_irrelevant [simp]:
  "positionalArguments (p\<lparr>quietOption := q\<rparr>) = positionalArguments p"
  "timeoutOf (p\<lparr>quietOption := q\<rparr>) = timeoutOf p"
  "timeoutSecondsOf (p\<lparr>quietOption := q\<rparr>) = timeoutSecondsOf p"
  "entryPathOf (p\<lparr>quietOption := q\<rparr>) = entryPathOf p"
  "attributeIsSet (p\<lparr>quietOption := q\<rparr>) = attributeIsSet p"
  "attributeValueOf (p\<lparr>quietOption := q\<rparr>) = attributeValueOf p"
  by (simp_all add: timeoutOf_def timeoutSecondsOf_def entryPathOf_def attributeIsSet_def
        attributeValueOf_def)

lemma errorView_quiet:
  "errorView (executeWithDatabase env (p\<lparr>quietOption := q\<rparr>) s) =
   errorView (executeWithDatabase env p s)"
proof (cases "totpOption p \<or> attributeValueOf p = ''totp''")
  case True
  then have "totpOption (p\<lparr>quietOption := q\<rparr>) \<or> attributeValueOf (p\<lparr>quietOption := q\<rparr>) = ''totp''"
    by simp
  note resolved = resolveValue_totp [OF this] resolveValue_totp [OF True]
  show ?thesis
    by (auto simp add: executeWithDatabase_def Let_def copyAndClear_eq resolved
          errorView_def split: option.splits)
next
  case False
  then have no_totp: "\<not> totpOption p" "attributeValueOf p \<noteq> ''totp''"
    by simp_all
  then have "\<not> totpOption (p\<lparr>quietOption := q\<rparr>)" "attributeValueOf (p\<lparr>quietOption := q\<rparr>) \<noteq> ''totp''"
    by simp_all
  note resolved = resolveValue_attribute [OF this] resolveValue_attribute [OF no_totp]
  show ?thesis
    by (auto simp add: executeWithDatabase_def Let_def copyAndClear_eq resolved
          errorView_def split: option.splits list.splits)
qed

text \<open>
  C9. Two runs that differ only in the quiet flag end with the same exit code, the same
  text on the error stream and the same clipboard: either both abort, or both return and
  agree on the three.
\<close>

theorem quiet_leaves_error_stream:
  "errorView (executeWithDatabase env (p\<lparr>quietOption := True\<rparr>) s) =
   errorView (executeWithDatabase env (p\<lparr>quietOption := False\<rparr>) s)"
  by (simp add: errorView_quiet)


theorem quiet_leaves_error_stream_witness:
  "errorView (executeWithDatabase demoEnv (missingTotpRun\<lparr>quietOption := True\<rparr>) demoState) =
   errorView (executeWithDatabase demoEnv (missingTotpRun\<lparr>quietOption := False\<rparr>) demoState)
   \<and> errorView (executeWithDatabase demoEnv (missingTotpRun\<lparr>quietOption := True\<rparr>) demoState) =
       Some (EXIT_FAILURE, [msgNoTotp ''Root/Plain'', endl], ''old'')"
proof -
  have "errorView (executeWithDatabase demoEnv (missingTotpRun\<lparr>quietOption := False\<rparr>) demoState) =
      Some (EXIT_FAILURE, [msgNoTotp ''Root/Plain'', endl], ''old'')"
    by code_simp
  with quiet_leaves_error_stream [of demoEnv missingTotpRun demoState] show ?thesis
    by simp
qed

subsection \<open>Timeouts that are not numbers\<close>











end
